theory Spec2Isabelle
  imports Complex_Main "HOL-Library.Sublist"
begin

section \<open>Schema acquisition and caching of traefik-validator\<close>

text \<open>
  A shallow embedding of \<^verbatim>\<open>traefik_validator/utils.py\<close>: the class
  \<^verbatim>\<open>SchemaDownloader\<close> (cache location, freshness, download, acquisition policy) and
  the class \<^verbatim>\<open>Validator\<close> (the two roles and the collection of structural errors).
  The file system, the clock, the requests sent to the network and the lines printed are
  one explicit state, the \<open>world\<close>, which every operation takes and returns. A raised
  exception is the \<open>Inl\<close> of a result; the standard library and the third-party packages
  the code calls (hashlib, urllib, json, yaml, jsonschema) are the fields of one record,
  \<open>lib\<close>, over which every theorem is universally quantified.
  A leading underscore of a Python name is dropped (\<^verbatim>\<open>_get_cache_path\<close> is
  \<open>get_cache_path\<close>), since an Isabelle name starts with a letter.
\<close>

subsection \<open>Documents, exceptions, paths\<close>

text \<open>The value of \<^verbatim>\<open>json.loads\<close> and \<^verbatim>\<open>yaml.safe_load\<close>: a tree of mappings, sequences and scalars.\<close>

datatype json =
    JNull
  | JBool bool
  | JNum int
  | JStr string
  | JArr "json list"
  | JObj "(string \<times> json) list"

text \<open>
  The exception classes that can travel through the code. \<open>ValueError\<close> is the builtin
  the code raises itself, with its message; \<open>ValidationError\<close> is the class declared at
  the top of utils.py; \<open>JsonschemaValidationError\<close> is
  \<^verbatim>\<open>jsonschema.exceptions.ValidationError\<close> with its path (each element already a
  string) and its message; \<open>URLError\<close> carries its reason, \<open>HTTPError\<close> its status
  code and message; \<open>FileNotFoundError\<close> is the \<^verbatim>\<open>OSError\<close> of errno 2 for a
  path; \<open>OSError\<close> is any other operating-system error, with its errno and text;
  \<open>OtherException\<close> is any other class, by name and message.
\<close>

datatype exn =
    ValueError string
  | ValidationError string
  | JsonschemaValidationError "string list" string
  | URLError string
  | HTTPError nat string
  | UnicodeDecodeError
  | JSONDecodeError
  | FileNotFoundError "string list"
  | OSError nat string
  | OtherException string string

text \<open>\<^verbatim>\<open>isinstance(e, urllib.error.URLError)\<close>: \<^verbatim>\<open>HTTPError\<close> is a subclass of \<^verbatim>\<open>URLError\<close>.\<close>

fun isinstance_URLError :: "exn \<Rightarrow> bool" where
  "isinstance_URLError (URLError _) = True"
| "isinstance_URLError (HTTPError _ _) = True"
| "isinstance_URLError _ = False"

text \<open>
  \<^verbatim>\<open>isinstance(e, ValueError)\<close>: \<^verbatim>\<open>json.JSONDecodeError\<close> and
  \<^verbatim>\<open>UnicodeDecodeError\<close> are subclasses of \<^verbatim>\<open>ValueError\<close> in Python.
\<close>

fun isinstance_ValueError :: "exn \<Rightarrow> bool" where
  "isinstance_ValueError (ValueError _) = True"
| "isinstance_ValueError UnicodeDecodeError = True"
| "isinstance_ValueError JSONDecodeError = True"
| "isinstance_ValueError _ = False"

text \<open>
  \<^verbatim>\<open>isinstance(e, OSError)\<close>: \<^verbatim>\<open>FileNotFoundError\<close> and \<^verbatim>\<open>URLError\<close> (with
  \<^verbatim>\<open>HTTPError\<close>) are subclasses of \<^verbatim>\<open>OSError\<close>.
\<close>

fun isinstance_OSError :: "exn \<Rightarrow> bool" where
  "isinstance_OSError (OSError _ _) = True"
| "isinstance_OSError (FileNotFoundError _) = True"
| "isinstance_OSError (URLError _) = True"
| "isinstance_OSError (HTTPError _ _) = True"
| "isinstance_OSError _ = False"

text \<open>
  \<^verbatim>\<open>pathlib._ignore_error\<close>: the errno is one of ENOENT (2), ENOTDIR (20), EBADF (9),
  ELOOP (40). An exception without an errno is not ignored.
\<close>

fun ignore_error :: "exn \<Rightarrow> bool" where
  "ignore_error (OSError n _) = (n = 2 \<or> n = 20 \<or> n = 9 \<or> n = 40)"
| "ignore_error (FileNotFoundError _) = True"
| "ignore_error _ = False"


text \<open>The exception the code itself builds for a failed download or a missing offline cache: a plain \<^verbatim>\<open>ValueError\<close>.\<close>

fun is_plain_ValueError :: "exn \<Rightarrow> bool" where
  "is_plain_ValueError (ValueError _) = True"
| "is_plain_ValueError _ = False"

text \<open>Decimal digits of a natural number, for the status code in \<^verbatim>\<open>str(HTTPError)\<close>.\<close>

fun str_nat_fuel :: "nat \<Rightarrow> nat \<Rightarrow> string" where
  "str_nat_fuel 0 n = []"
| "str_nat_fuel (Suc k) n =
     (if n < 10 then [char_of (48 + n)]
      else str_nat_fuel k (n div 10) @ [char_of (48 + n mod 10)])"

definition str_nat :: "nat \<Rightarrow> string" where
  "str_nat n = str_nat_fuel (Suc n) n"

text \<open>\<^verbatim>\<open>str(e)\<close>, as the f-string of \<^verbatim>\<open>download_from_url\<close> formats the caught exception.\<close>

fun str_exn :: "exn \<Rightarrow> string" where
  "str_exn (ValueError m) = m"
| "str_exn (ValidationError m) = m"
| "str_exn (JsonschemaValidationError p m) = m"
| "str_exn (URLError r) = ''<urlopen error '' @ r @ ''>''"
| "str_exn (HTTPError c m) = ''HTTP Error '' @ str_nat c @ '': '' @ m"
| "str_exn UnicodeDecodeError = ''invalid start byte''"
| "str_exn JSONDecodeError = ''Expecting value''"
| "str_exn (FileNotFoundError p) = ''No such file or directory''"
| "str_exn (OSError n m) = m"
| "str_exn (OtherException c m) = m"

text \<open>A \<^verbatim>\<open>pathlib.Path\<close> is the list of its parts; \<^verbatim>\<open>p / name\<close> appends one part.\<close>

type_synonym path = "string list"
type_synonym url = string

subsection \<open>The libraries and the world\<close>

text \<open>
  What the code calls and does not define. \<open>home\<close> is \<^verbatim>\<open>Path.home()\<close>;
  \<open>md5_hexdigest s\<close> is \<^verbatim>\<open>hashlib.md5(s.encode()).hexdigest()\<close>;
  \<open>urlopen_read u\<close> is \<^verbatim>\<open>urllib.request.urlopen(u)\<close> followed by \<^verbatim>\<open>f.read()\<close>:
  the bytes of the body, or the exception either of them raises;
  \<open>decode_utf8\<close> is \<^verbatim>\<open>bytes.decode('utf-8')\<close> (None: UnicodeDecodeError);
  \<open>json_loads\<close> is the JSON decoder (None: JSONDecodeError); \<open>json_dumps\<close> the encoder;
  \<open>yaml_safe_load\<close> is \<^verbatim>\<open>yaml.safe_load\<close> on the content of the file;
  \<open>jsonschema_validate instance schema\<close> is \<^verbatim>\<open>jsonschema.validate\<close>
  (None: it returns; Some e: it raises e).
\<close>

record lib =
  home :: path
  md5_hexdigest :: "string \<Rightarrow> string"
  urlopen_read :: "url \<Rightarrow> exn + string"
  decode_utf8 :: "string \<Rightarrow> string option"
  json_loads :: "string \<Rightarrow> json option"
  json_dumps :: "json \<Rightarrow> string"
  yaml_safe_load :: "string \<Rightarrow> exn + json"
  jsonschema_validate :: "json \<Rightarrow> json \<Rightarrow> exn option"

text \<open>A regular file: \<^verbatim>\<open>st_mtime\<close> and the text it holds.\<close>

record cache_file =
  mtime :: real
  content :: string

text \<open>
  What the operating system answers for a path that is not simply absent: a regular file,
  or an error with which it refuses to resolve the path (a name that is too long, a
  directory that may not be searched, a component that is not a directory). The same
  error meets \<^verbatim>\<open>stat\<close> and \<^verbatim>\<open>open\<close>.
\<close>

datatype node = File cache_file | Refused exn

text \<open>
  The state outside the program: the nodes by path, the clock \<^verbatim>\<open>time.time()\<close>,
  the URLs passed to \<^verbatim>\<open>urlopen\<close> so far (oldest first) and the lines printed so far.
  The clock does not move during one call; time that passes between calls is \<open>advance\<close>.
\<close>

record world =
  fs :: "path \<rightharpoonup> node"
  now :: real
  requests :: "url list"
  stdout :: "string list"

definition advance :: "real \<Rightarrow> world \<Rightarrow> world" where
  "advance t w = w\<lparr>now := now w + t\<rparr>"

text \<open>\<^verbatim>\<open>Path.stat()\<close>: the file, or the error raised (errno 2 for an absent path).\<close>

definition os_stat :: "world \<Rightarrow> path \<Rightarrow> exn + cache_file" where
  "os_stat w p =
     (case fs w p of
        None \<Rightarrow> Inl (FileNotFoundError p)
      | Some (File f) \<Rightarrow> Inr f
      | Some (Refused e) \<Rightarrow> Inl e)"

text \<open>
  The \<^verbatim>\<open>except\<close> clauses of \<^verbatim>\<open>Path.exists()\<close> in pathlib (as of CPython 3.11),
  applied to what \<^verbatim>\<open>stat\<close> raised: an \<^verbatim>\<open>OSError\<close> that \<^verbatim>\<open>_ignore_error\<close> does
  not accept is raised again, an accepted one gives False; a \<^verbatim>\<open>ValueError\<close> gives
  False; every other exception is not caught.
\<close>

definition exists_on_error :: "exn \<Rightarrow> exn + bool" where
  "exists_on_error e =
     (if isinstance_OSError e then (if \<not> ignore_error e then Inl e else Inr False)
      else if isinstance_ValueError e then Inr False
      else Inl e)"

text \<open>\<^verbatim>\<open>Path.exists()\<close>: True when \<^verbatim>\<open>stat\<close> returns.\<close>

definition path_exists :: "world \<Rightarrow> path \<Rightarrow> exn + bool" where
  "path_exists w p =
     (case os_stat w p of
        Inr f \<Rightarrow> Inr True
      | Inl e \<Rightarrow> exists_on_error e)"

text \<open>\<^verbatim>\<open>Path.stat().st_mtime\<close>\<close>

definition stat_st_mtime :: "world \<Rightarrow> path \<Rightarrow> exn + real" where
  "stat_st_mtime w p = (case os_stat w p of Inl e \<Rightarrow> Inl e | Inr f \<Rightarrow> Inr (mtime f))"

text \<open>\<^verbatim>\<open>json.load(f)\<close> on the text of an open file.\<close>

definition json_load :: "lib \<Rightarrow> string \<Rightarrow> exn + json" where
  "json_load L s = (case json_loads L s of None \<Rightarrow> Inl JSONDecodeError | Some d \<Rightarrow> Inr d)"

text \<open>\<^verbatim>\<open>with open(cache_path, 'r') as f: return json.load(f)\<close>\<close>

definition open_r_json_load :: "lib \<Rightarrow> world \<Rightarrow> path \<Rightarrow> exn + json" where
  "open_r_json_load L w p =
     (case fs w p of
        None \<Rightarrow> Inl (FileNotFoundError p)
      | Some (File f) \<Rightarrow> json_load L (content f)
      | Some (Refused e) \<Rightarrow> Inl e)"

text \<open>
  \<^verbatim>\<open>with open(cache_path, 'w') as f: json.dump(schema, f)\<close>: the file is created or
  replaced whole, and the file system stamps it with the current time. At a path the
  operating system refuses, \<^verbatim>\<open>open\<close> raises and nothing is written.
\<close>

definition open_w_json_dump :: "lib \<Rightarrow> path \<Rightarrow> json \<Rightarrow> world \<Rightarrow> exn + world" where
  "open_w_json_dump L p schema w =
     (case fs w p of
        Some (Refused e) \<Rightarrow> Inl e
      | _ \<Rightarrow>
          Inr (w\<lparr>fs := (fs w)(p \<mapsto>
                 File \<lparr>mtime = now w, content = json_dumps L schema\<rparr>)\<rparr>))"


subsection \<open>SchemaDownloader\<close>

text \<open>\<^verbatim>\<open>CACHE_DIR = Path.home() / ".traefik-validator" / "cache"\<close> and \<^verbatim>\<open>CACHE_TTL = 86400\<close>.\<close>

definition CACHE_DIR :: "lib \<Rightarrow> path" where
  "CACHE_DIR L = home L @ [''.traefik-validator'', ''cache'']"

definition CACHE_TTL :: real where
  "CACHE_TTL = 86400"

text \<open>settings.py\<close>

definition STATIC_CONFS_SCHEMA_URL :: url where
  "STATIC_CONFS_SCHEMA_URL = ''https://json.schemastore.org/traefik-v3.json''"

definition DYNAMIC_CONFS_SCHEMA_URL :: url where
  "DYNAMIC_CONFS_SCHEMA_URL = ''https://json.schemastore.org/traefik-v3-file-provider.json''"

text \<open>\<^verbatim>\<open>_get_cache_path\<close>: the MD5 hex digest of the URL, with \<^verbatim>\<open>.json\<close>, inside the cache directory.\<close>

definition get_cache_path :: "lib \<Rightarrow> url \<Rightarrow> path" where
  "get_cache_path L url = CACHE_DIR L @ [md5_hexdigest L url @ ''.json'']"

text \<open>
  \<^verbatim>\<open>_is_cache_valid\<close>: False for a path that does not exist, otherwise the age against
  the TTL. Neither \<^verbatim>\<open>exists\<close> nor \<^verbatim>\<open>stat\<close> is inside a \<^verbatim>\<open>try\<close>: what they
  raise leaves the function.
\<close>

definition is_cache_valid :: "world \<Rightarrow> path \<Rightarrow> exn + bool" where
  "is_cache_valid w cache_path =
     (case path_exists w cache_path of
        Inl e \<Rightarrow> Inl e
      | Inr False \<Rightarrow> Inr False
      | Inr True \<Rightarrow>
          (case stat_st_mtime w cache_path of
             Inl e \<Rightarrow> Inl e
           | Inr m \<Rightarrow> (let cache_age = now w - m in Inr (cache_age < CACHE_TTL))))"

text \<open>
  \<^verbatim>\<open>download_from_url\<close>: the request is logged, then the body is read, decoded as UTF-8
  and parsed. Only an instance of \<^verbatim>\<open>URLError\<close> is caught and raised again as a
  \<^verbatim>\<open>ValueError\<close>; every other exception leaves the function as it is.
\<close>

definition download_from_url :: "lib \<Rightarrow> url \<Rightarrow> world \<Rightarrow> (exn + json) \<times> world" where
  "download_from_url L url w =
     (let w' = w\<lparr>requests := requests w @ [url]\<rparr> in
      case urlopen_read L url of
        Inl e \<Rightarrow>
          (if isinstance_URLError e
           then (Inl (ValueError (''Failed to download schema from '' @ url @ '': '' @ str_exn e)), w')
           else (Inl e, w'))
      | Inr body \<Rightarrow>
          (case decode_utf8 L body of
             None \<Rightarrow> (Inl UnicodeDecodeError, w')
           | Some text \<Rightarrow>
               (case json_loads L text of
                  None \<Rightarrow> (Inl JSONDecodeError, w')
                | Some schema \<Rightarrow> (Inr schema, w'))))"

text \<open>The message of the error raised offline when no cache file exists.\<close>

definition no_cache_message :: "url \<Rightarrow> string" where
  "no_cache_message url =
     ''No cached schema available for '' @ url @ '' and offline mode is enabled. '' @
     ''Run without --offline first to download schemas.''"

text \<open>\<^verbatim>\<open>get_schema\<close>, branch by branch in the order of the source.\<close>

definition get_schema :: "lib \<Rightarrow> url \<Rightarrow> bool \<Rightarrow> world \<Rightarrow> (exn + json) \<times> world" where
  "get_schema L url offline w =
     (let cache_path = get_cache_path L url in
      case is_cache_valid w cache_path of
        Inl e \<Rightarrow> (Inl e, w)
      | Inr True \<Rightarrow> (open_r_json_load L w cache_path, w)
      | Inr False \<Rightarrow>
          (if offline then
             (case path_exists w cache_path of
                Inl e \<Rightarrow> (Inl e, w)
              | Inr True \<Rightarrow> (open_r_json_load L w cache_path, w)
              | Inr False \<Rightarrow> (Inl (ValueError (no_cache_message url)), w))
           else
             (case download_from_url L url w of
                (Inl e, w') \<Rightarrow> (Inl e, w')
              | (Inr schema, w') \<Rightarrow>
                  (case open_w_json_dump L cache_path schema w' of
                     Inl e \<Rightarrow> (Inl e, w')
                   | Inr w'' \<Rightarrow> (Inr schema, w'')))))"

subsection \<open>Validator\<close>

text \<open>
  The fields of a \<^verbatim>\<open>Validator\<close> and of the \<^verbatim>\<open>SchemaDownloader\<close> it owns. A
  configuration file is the text it holds, or None when the argument was not given; an
  open file object is always true in a Python condition.
\<close>

record validator =
  static_conf_file :: "string option"
  dynamic_conf_file :: "string option"
  offline :: bool
  static_schema_url :: url
  dynamic_schema_url :: url

text \<open>\<^verbatim>\<open>Validator.__init__\<close>: at least one file, and the URLs of settings.py.\<close>

definition Validator_init :: "string option \<Rightarrow> string option \<Rightarrow> bool \<Rightarrow> exn + validator" where
  "Validator_init static_file dynamic_file off =
     (if static_file = None \<and> dynamic_file = None
      then Inl (ValueError ''User should pass either static config file or dynamic config file'')
      else Inr \<lparr>static_conf_file = static_file, dynamic_conf_file = dynamic_file, offline = off,
                static_schema_url = STATIC_CONFS_SCHEMA_URL,
                dynamic_schema_url = DYNAMIC_CONFS_SCHEMA_URL\<rparr>)"



text \<open>
  The three statements shared by \<^verbatim>\<open>_validate_static\<close> and \<^verbatim>\<open>_validate_dynamic\<close>
  once the schema call has returned: load the YAML, match it against the schema.
\<close>

definition load_and_match :: "lib \<Rightarrow> string \<Rightarrow> (exn + json) \<times> world \<Rightarrow> (exn + unit) \<times> world" where
  "load_and_match L conf r =
     (case r of
        (Inl e, w') \<Rightarrow> (Inl e, w')
      | (Inr schema_file, w') \<Rightarrow>
          (case yaml_safe_load L conf of
             Inl e \<Rightarrow> (Inl e, w')
           | Inr config_file \<Rightarrow>
               (case jsonschema_validate L config_file schema_file of
                  Some e \<Rightarrow> (Inl e, w')
                | None \<Rightarrow> (Inr (), w'))))"









subsection \<open>Example libraries and worlds\<close>

text \<open>
  Two identifiers of 72 letters and digits that differ in one character (the 22nd, A
  against E) and have the same MD5 digest.
\<close>

definition colliding_id_A :: url where
  "colliding_id_A = ''TEXTCOLLBYfGiJUETHQ4hAcKSMd5zYpgqf1YRDhkmxHkhPWptrkoyz28wnI9V0aHeAuaKnak''"

definition colliding_id_E :: url where
  "colliding_id_E = ''TEXTCOLLBYfGiJUETHQ4hEcKSMd5zYpgqf1YRDhkmxHkhPWptrkoyz28wnI9V0aHeAuaKnak''"

text \<open>
  Concrete values at which the theorems below are instantiated. The digest is given at the
  two URLs of settings.py and at the two colliding identifiers, where it is the MD5 hex
  digest of the string; at any other string the digest of the empty string stands in.
\<close>

definition example_md5 :: "string \<Rightarrow> string" where
  "example_md5 s =
     (if s = STATIC_CONFS_SCHEMA_URL then ''420f09d101c22b93df959f5cc5f5655d''
      else if s = DYNAMIC_CONFS_SCHEMA_URL then ''a79219e8b8d062c0e2321fe454af1d8a''
      else if s = colliding_id_A \<or> s = colliding_id_E then ''faad49866e9498fc1719f5289e7a0269''
      else ''d41d8cd98f00b204e9800998ecf8427e'')"

text \<open>A schema that asks for a mapping, as text and as a document.\<close>

definition object_schema_text :: string where
  \<open>object_schema_text = ''{"type": "object"}''\<close>

definition object_schema :: json where
  "object_schema = JObj [(''type'', JStr ''object'')]"

definition example_json_loads :: "string \<Rightarrow> json option" where
  "example_json_loads s =
     (if s = object_schema_text then Some object_schema
      else if s = ''{}'' then Some (JObj [])
      else None)"

definition example_json_dumps :: "json \<Rightarrow> string" where
  "example_json_dumps d =
     (if d = object_schema then object_schema_text
      else if d = JObj [] then ''{}''
      else ''null'')"

definition example_yaml_safe_load :: "string \<Rightarrow> exn + json" where
  "example_yaml_safe_load s =
     (if s = ''a: 1'' then Inr (JObj [(''a'', JNum 1)])
      else if s = ''- 1'' then Inr (JArr [JNum 1])
      else Inr (JStr s))"

definition example_jsonschema_validate :: "json \<Rightarrow> json \<Rightarrow> exn option" where
  "example_jsonschema_validate inst schema =
     (if schema = object_schema
      then (case inst of
              JObj kvs \<Rightarrow> None
            | _ \<Rightarrow> Some (JsonschemaValidationError []
                        (''[1] is not of type '' @ [CHR 0x27] @ ''object'' @ [CHR 0x27])))
      else None)"

text \<open>The libraries over a given network: what \<^verbatim>\<open>urlopen\<close> and \<^verbatim>\<open>read\<close> answer for a URL.\<close>

definition example_lib :: "(url \<Rightarrow> exn + string) \<Rightarrow> lib" where
  "example_lib net =
     \<lparr>home = [''/'', ''home'', ''user''],
      md5_hexdigest = example_md5,
      urlopen_read = net,
      decode_utf8 = Some,
      json_loads = example_json_loads,
      json_dumps = example_json_dumps,
      yaml_safe_load = example_yaml_safe_load,
      jsonschema_validate = example_jsonschema_validate\<rparr>"

text \<open>
  Five networks: one that serves the schema, an unreachable host, a status 404, a page
  that is not JSON, and a connection that is reset while the body is read.
\<close>

definition net_ok :: "url \<Rightarrow> exn + string" where
  "net_ok u = Inr object_schema_text"

definition net_unreachable :: "url \<Rightarrow> exn + string" where
  "net_unreachable u = Inl (URLError ''[Errno -2] Name or service not known'')"

definition net_404 :: "url \<Rightarrow> exn + string" where
  "net_404 u = Inl (HTTPError 404 ''Not Found'')"

definition net_html :: "url \<Rightarrow> exn + string" where
  "net_html u = Inr ''<html></html>''"

definition net_reset :: "url \<Rightarrow> exn + string" where
  "net_reset u = Inl (OtherException ''ConnectionResetError'' ''[Errno 104] Connection reset by peer'')"

text \<open>The cache locations of the two URLs of settings.py under the example home directory.\<close>

definition static_cache_path :: path where
  "static_cache_path =
     [''/'', ''home'', ''user'', ''.traefik-validator'', ''cache'',
      ''420f09d101c22b93df959f5cc5f5655d.json'']"

definition dynamic_cache_path :: path where
  "dynamic_cache_path =
     [''/'', ''home'', ''user'', ''.traefik-validator'', ''cache'',
      ''a79219e8b8d062c0e2321fe454af1d8a.json'']"

text \<open>
  Worlds at time 1000000: no cache file at all; one file for the static URL, written at
  a given time with a given text; one file for each URL.
\<close>

definition empty_world :: world where
  "empty_world = \<lparr>fs = Map.empty, now = 1000000, requests = [], stdout = []\<rparr>"

definition cached_world :: "real \<Rightarrow> string \<Rightarrow> world" where
  "cached_world m s =
     \<lparr>fs = [static_cache_path \<mapsto> File \<lparr>mtime = m, content = s\<rparr>],
      now = 1000000, requests = [], stdout = []\<rparr>"

definition both_cached_world :: "real \<Rightarrow> string \<Rightarrow> world" where
  "both_cached_world m s =
     \<lparr>fs = [static_cache_path \<mapsto> File \<lparr>mtime = m, content = s\<rparr>,
            dynamic_cache_path \<mapsto> File \<lparr>mtime = m, content = s\<rparr>],
      now = 1000000, requests = [], stdout = []\<rparr>"

text \<open>The cache location shared by the two colliding identifiers, and a world with a stale file there.\<close>

definition colliding_cache_path :: path where
  "colliding_cache_path =
     [''/'', ''home'', ''user'', ''.traefik-validator'', ''cache'',
      ''faad49866e9498fc1719f5289e7a0269.json'']"

definition colliding_world :: world where
  "colliding_world =
     \<lparr>fs = [colliding_cache_path \<mapsto> File \<lparr>mtime = 1000, content = ''{}''\<rparr>],
      now = 1000000, requests = [], stdout = []\<rparr>"

text \<open>
  A location whose last part has 305 characters, beyond the 255 a file name may have, and
  a world in which the operating system answers it with errno 36; a world in which the
  cache directory may not be searched (errno 13) and one in which a part of the location
  is not a directory (errno 20).
\<close>

definition long_name_path :: path where
  "long_name_path = [''/'', ''tmp'', replicate 300 (CHR ''a'') @ ''.json'']"

definition long_name_world :: world where
  "long_name_world =
     \<lparr>fs = [long_name_path \<mapsto> Refused (OSError 36 ''File name too long'')],
      now = 1000000, requests = [], stdout = []\<rparr>"

definition denied_world :: world where
  "denied_world =
     \<lparr>fs = [static_cache_path \<mapsto> Refused (OSError 13 ''Permission denied'')],
      now = 1000000, requests = [], stdout = []\<rparr>"

definition not_a_directory_world :: world where
  "not_a_directory_world =
     \<lparr>fs = [static_cache_path \<mapsto> Refused (OSError 20 ''Not a directory'')],
      now = 1000000, requests = [], stdout = []\<rparr>"

text \<open>A validator with both files: the static one holds a sequence, the dynamic one a mapping.\<close>

definition example_validator :: "bool \<Rightarrow> validator" where
  "example_validator off =
     \<lparr>static_conf_file = Some ''- 1'', dynamic_conf_file = Some ''a: 1'', offline = off,
      static_schema_url = STATIC_CONFS_SCHEMA_URL,
      dynamic_schema_url = DYNAMIC_CONFS_SCHEMA_URL\<rparr>"

section \<open>Properties\<close>

subsection \<open>Evaluation of the examples\<close>

lemma example_static_path [simp]:
  "get_cache_path (example_lib net) STATIC_CONFS_SCHEMA_URL = static_cache_path"
  by (simp add: get_cache_path_def CACHE_DIR_def example_lib_def example_md5_def static_cache_path_def)

lemma example_dynamic_path [simp]:
  "get_cache_path (example_lib net) DYNAMIC_CONFS_SCHEMA_URL = dynamic_cache_path"
  by (simp add: get_cache_path_def CACHE_DIR_def example_lib_def example_md5_def
      dynamic_cache_path_def STATIC_CONFS_SCHEMA_URL_def DYNAMIC_CONFS_SCHEMA_URL_def)

lemma example_colliding_paths [simp]:
  "get_cache_path (example_lib net) colliding_id_A = colliding_cache_path"
  "get_cache_path (example_lib net) colliding_id_E = colliding_cache_path"
  by (simp_all add: get_cache_path_def CACHE_DIR_def example_lib_def example_md5_def
      colliding_cache_path_def colliding_id_A_def colliding_id_E_def
      STATIC_CONFS_SCHEMA_URL_def DYNAMIC_CONFS_SCHEMA_URL_def)

lemma example_paths_differ [simp]:
  "static_cache_path \<noteq> dynamic_cache_path" "dynamic_cache_path \<noteq> static_cache_path"
  by (simp_all add: static_cache_path_def dynamic_cache_path_def)

lemma example_lib_fields [simp]:
  "urlopen_read (example_lib net) = net"
  "decode_utf8 (example_lib net) = Some"
  "json_loads (example_lib net) = example_json_loads"
  "json_dumps (example_lib net) = example_json_dumps"
  "yaml_safe_load (example_lib net) = example_yaml_safe_load"
  "jsonschema_validate (example_lib net) = example_jsonschema_validate"
  by (simp_all add: example_lib_def)

lemma example_json [simp]:
  "example_json_loads object_schema_text = Some object_schema"
  "example_json_loads ''<html></html>'' = None"
  "example_json_dumps object_schema = object_schema_text"
  by (simp_all add: example_json_loads_def example_json_dumps_def object_schema_text_def)

text \<open>Fields of the example worlds.\<close>

lemma example_fs [simp]:
  "fs (cached_world m s) static_cache_path = Some (File \<lparr>mtime = m, content = s\<rparr>)"
  "fs empty_world p = None"
  "now (cached_world m s) = 1000000"
  "now empty_world = 1000000"
  "requests (cached_world m s) = []"
  "requests empty_world = []"
  "stdout empty_world = []"
  by (simp_all add: cached_world_def empty_world_def)

lemma example_both_fs [simp]:
  "fs (both_cached_world m s) static_cache_path = Some (File \<lparr>mtime = m, content = s\<rparr>)"
  "fs (both_cached_world m s) dynamic_cache_path = Some (File \<lparr>mtime = m, content = s\<rparr>)"
  "now (both_cached_world m s) = 1000000"
  "requests (both_cached_world m s) = []"
  "stdout (both_cached_world m s) = []"
  by (simp_all add: both_cached_world_def)

subsection \<open>Helper facts on freshness and download\<close>

text \<open>The existence and freshness tests by what is at the path.\<close>

lemma path_exists_eq:
  "path_exists w p =
     (case fs w p of
        None \<Rightarrow> Inr False
      | Some (File f) \<Rightarrow> Inr True
      | Some (Refused e) \<Rightarrow> exists_on_error e)"
  by (simp add: path_exists_def os_stat_def exists_on_error_def split: option.splits node.splits)

lemma is_cache_valid_eq:
  "is_cache_valid w p =
     (case fs w p of
        None \<Rightarrow> Inr False
      | Some (File f) \<Rightarrow> Inr (now w - mtime f < 86400)
      | Some (Refused e) \<Rightarrow>
          (case exists_on_error e of Inl e' \<Rightarrow> Inl e' | Inr b \<Rightarrow> if b then Inl e else Inr False))"
  by (simp add: is_cache_valid_def path_exists_eq stat_st_mtime_def os_stat_def CACHE_TTL_def
      split: option.splits node.splits sum.splits bool.splits)

lemma exists_on_error_not_True:
  "exists_on_error e \<noteq> Inr True"
  by (simp add: exists_on_error_def)

lemma download_requests:
  "requests (snd (download_from_url L url w)) = requests w @ [url]"
  by (simp add: download_from_url_def Let_def split: sum.splits option.splits)

lemma download_fs:
  "fs (snd (download_from_url L url w)) = fs w"
  by (simp add: download_from_url_def Let_def split: sum.splits option.splits)

lemma download_world:
  "snd (download_from_url L url w) = w\<lparr>requests := requests w @ [url]\<rparr>"
  by (simp add: download_from_url_def Let_def split: sum.splits option.splits)

lemma download_ok:
  "urlopen_read L url = Inr body \<Longrightarrow> decode_utf8 L body = Some txt \<Longrightarrow> json_loads L txt = Some d \<Longrightarrow>
   download_from_url L url w = (Inr d, w\<lparr>requests := requests w @ [url]\<rparr>)"
  by (simp add: download_from_url_def Let_def)

subsection \<open>The whole of \<open>get_schema\<close> in closed form\<close>

text \<open>
  The result and the world after \<open>get_schema\<close>, by what is at the cache location: nothing,
  a regular file, or a refusal of the operating system.
\<close>

lemma get_schema_online:
  assumes "\<not> off" and "is_cache_valid w (get_cache_path L url) = Inr False"
    and "\<forall>e. fs w (get_cache_path L url) \<noteq> Some (Refused e)"
  shows "get_schema L url off w =
     (case fst (download_from_url L url w) of
        Inl e \<Rightarrow> (Inl e, w\<lparr>requests := requests w @ [url]\<rparr>)
      | Inr schema \<Rightarrow>
          (Inr schema,
           w\<lparr>requests := requests w @ [url],
             fs := (fs w)(get_cache_path L url \<mapsto>
                     File \<lparr>mtime = now w, content = json_dumps L schema\<rparr>)\<rparr>))"
proof -
  obtain r where d: "download_from_url L url w = (r, w\<lparr>requests := requests w @ [url]\<rparr>)"
    using download_world [of L url w] by (cases "download_from_url L url w") simp
  have wr: "open_w_json_dump L (get_cache_path L url) schema (w\<lparr>requests := requests w @ [url]\<rparr>) =
      Inr (w\<lparr>requests := requests w @ [url],
             fs := (fs w)(get_cache_path L url \<mapsto>
                     File \<lparr>mtime = now w, content = json_dumps L schema\<rparr>)\<rparr>)" for schema
    using assms(3)
    by (simp add: open_w_json_dump_def split: option.splits node.splits)
  show ?thesis
    using assms(1,2) by (simp add: get_schema_def Let_def d wr split: sum.splits)
qed

lemma get_schema_absent:
  assumes "fs w (get_cache_path L url) = None"
  shows "get_schema L url off w =
     (if off then (Inl (ValueError (no_cache_message url)), w)
      else (case fst (download_from_url L url w) of
              Inl e \<Rightarrow> (Inl e, w\<lparr>requests := requests w @ [url]\<rparr>)
            | Inr schema \<Rightarrow>
                (Inr schema,
                 w\<lparr>requests := requests w @ [url],
                   fs := (fs w)(get_cache_path L url \<mapsto>
                           File \<lparr>mtime = now w, content = json_dumps L schema\<rparr>)\<rparr>)))"
proof (cases off)
  case True
  with assms show ?thesis
    by (simp add: get_schema_def Let_def is_cache_valid_eq path_exists_eq)
next
  case False
  with assms show ?thesis
    by (simp add: get_schema_online is_cache_valid_eq)
qed

lemma get_schema_file:
  assumes "fs w (get_cache_path L url) = Some (File f)"
  shows "get_schema L url off w =
     (if now w - mtime f < 86400 \<or> off then (json_load L (content f), w)
      else (case fst (download_from_url L url w) of
              Inl e \<Rightarrow> (Inl e, w\<lparr>requests := requests w @ [url]\<rparr>)
            | Inr schema \<Rightarrow>
                (Inr schema,
                 w\<lparr>requests := requests w @ [url],
                   fs := (fs w)(get_cache_path L url \<mapsto>
                           File \<lparr>mtime = now w, content = json_dumps L schema\<rparr>)\<rparr>)))"
proof (cases "now w - mtime f < 86400 \<or> off")
  case True
  with assms show ?thesis
    by (auto simp: get_schema_def Let_def is_cache_valid_eq path_exists_eq open_r_json_load_def
        split: bool.splits)
next
  case False
  with assms show ?thesis
    by (simp add: get_schema_online is_cache_valid_eq)
qed

lemma get_schema_refused:
  assumes "fs w (get_cache_path L url) = Some (Refused e)"
  shows "fs (snd (get_schema L url off w)) = fs w"
    and "\<exists>e'. fst (get_schema L url off w) = Inl e'"
    and "exists_on_error e = Inl e' \<Longrightarrow> get_schema L url off w = (Inl e', w)"
proof -
  obtain r where d: "download_from_url L url w = (r, w\<lparr>requests := requests w @ [url]\<rparr>)"
    using download_world [of L url w] by (cases "download_from_url L url w") simp
  have wr: "open_w_json_dump L (get_cache_path L url) schema (w\<lparr>requests := requests w @ [url]\<rparr>) = Inl e"
    for schema
    using assms by (simp add: open_w_json_dump_def)
  show "fs (snd (get_schema L url off w)) = fs w"
    using assms exists_on_error_not_True [of e]
    by (cases "exists_on_error e"; cases r)
       (auto simp: get_schema_def Let_def is_cache_valid_eq path_exists_eq d wr open_r_json_load_def
          split: bool.splits)
  show "\<exists>e'. fst (get_schema L url off w) = Inl e'"
    using assms exists_on_error_not_True [of e]
    by (cases "exists_on_error e"; cases r)
       (auto simp: get_schema_def Let_def is_cache_valid_eq path_exists_eq d wr open_r_json_load_def
          split: bool.splits)
  show "exists_on_error e = Inl e' \<Longrightarrow> get_schema L url off w = (Inl e', w)"
    using assms by (simp add: get_schema_def Let_def is_cache_valid_eq)
qed

subsection \<open>The acquisition policy\<close>

text \<open>
  Claim C1. For every URL, flag and world, \<open>get_schema\<close> takes the first branch that
  applies. (1) A cache file younger than 86400 seconds is read and parsed, and the world
  is returned as it was: nothing is requested and nothing written. (2) Offline, a cache
  file of any age is read and parsed in the same way. (3) Offline with no cache file, the
  call fails with a \<open>ValueError\<close> whose message names the URL and says to run without
  \<^verbatim>\<open>--offline\<close> first; the world is unchanged. (4) Online with the file missing or
  stale, exactly one request for the URL is added to the log, and when the response
  decodes to a document, that document is written to the cache location (stamped with
  the current time) and returned. In (1) and (2) the outcome is that of the JSON decoder
  on the text of the file: the document, or its decoding error.
\<close>

theorem get_schema_decision_policy:
  "(\<forall>f. fs w (get_cache_path L url) = Some (File f) \<and> now w - mtime f < 86400 \<longrightarrow>
        get_schema L url off w =
          (case json_loads L (content f) of None \<Rightarrow> Inl JSONDecodeError | Some d \<Rightarrow> Inr d, w))
   \<and> (\<forall>f. off \<and> fs w (get_cache_path L url) = Some (File f) \<and> \<not> now w - mtime f < 86400 \<longrightarrow>
        get_schema L url off w =
          (case json_loads L (content f) of None \<Rightarrow> Inl JSONDecodeError | Some d \<Rightarrow> Inr d, w))
   \<and> (off \<and> fs w (get_cache_path L url) = None \<longrightarrow>
        get_schema L url off w =
          (Inl (ValueError (''No cached schema available for '' @ url @
                  '' and offline mode is enabled. Run without --offline first to download schemas.'')), w))
   \<and> (\<not> off \<and>
        (fs w (get_cache_path L url) = None \<or>
         (\<exists>f. fs w (get_cache_path L url) = Some (File f) \<and> \<not> now w - mtime f < 86400)) \<longrightarrow>
        requests (snd (get_schema L url off w)) = requests w @ [url] \<and>
        (\<forall>body txt d.
           urlopen_read L url = Inr body \<and> decode_utf8 L body = Some txt \<and>
           json_loads L txt = Some d \<longrightarrow>
           get_schema L url off w =
             (Inr d, w\<lparr>requests := requests w @ [url],
                        fs := (fs w)(get_cache_path L url \<mapsto>
                                File \<lparr>mtime = now w, content = json_dumps L d\<rparr>)\<rparr>)))"
proof -
  let ?p = "get_cache_path L url"
  let ?parsed = "\<lambda>f. case json_loads L (content f) of None \<Rightarrow> Inl JSONDecodeError | Some d \<Rightarrow> Inr d"
  have fresh: "get_schema L url off w = (?parsed f, w)"
    if "fs w ?p = Some (File f) \<and> now w - mtime f < 86400" for f
    using that by (simp add: get_schema_file json_load_def)
  have stale_offline: "get_schema L url off w = (?parsed f, w)"
    if "off \<and> fs w ?p = Some (File f) \<and> \<not> now w - mtime f < 86400" for f
    using that by (simp add: get_schema_file json_load_def)
  have missing_offline: "get_schema L url off w =
      (Inl (ValueError (''No cached schema available for '' @ url @
              '' and offline mode is enabled. Run without --offline first to download schemas.'')), w)"
    if "off \<and> fs w ?p = None"
    using that by (simp add: get_schema_absent no_cache_message_def)
  have online: "requests (snd (get_schema L url off w)) = requests w @ [url] \<and>
      (\<forall>body txt d.
         urlopen_read L url = Inr body \<and> decode_utf8 L body = Some txt \<and>
         json_loads L txt = Some d \<longrightarrow>
         get_schema L url off w =
           (Inr d, w\<lparr>requests := requests w @ [url],
                      fs := (fs w)(?p \<mapsto> File \<lparr>mtime = now w, content = json_dumps L d\<rparr>)\<rparr>))"
    if a: "\<not> off \<and> (fs w ?p = None \<or> (\<exists>f. fs w ?p = Some (File f) \<and> \<not> now w - mtime f < 86400))"
  proof -
    have gs: "get_schema L url off w =
        (case fst (download_from_url L url w) of
           Inl e \<Rightarrow> (Inl e, w\<lparr>requests := requests w @ [url]\<rparr>)
         | Inr schema \<Rightarrow>
             (Inr schema,
              w\<lparr>requests := requests w @ [url],
                fs := (fs w)(?p \<mapsto> File \<lparr>mtime = now w, content = json_dumps L schema\<rparr>)\<rparr>))"
      using a by (auto simp: get_schema_absent get_schema_file)
    have once: "requests (snd (get_schema L url off w)) = requests w @ [url]"
      by (simp add: gs split: sum.splits)
    have written: "\<forall>body txt d.
         urlopen_read L url = Inr body \<and> decode_utf8 L body = Some txt \<and>
         json_loads L txt = Some d \<longrightarrow>
         get_schema L url off w =
           (Inr d, w\<lparr>requests := requests w @ [url],
                      fs := (fs w)(?p \<mapsto> File \<lparr>mtime = now w, content = json_dumps L d\<rparr>)\<rparr>)"
      by (auto simp: gs download_ok)
    from once written show ?thesis by blast
  qed
  from fresh stale_offline missing_offline online show ?thesis by blast
qed

text \<open>
  The four branches at the URL of the static schema: a fresh file, a stale file offline,
  no file offline, and a stale file online with a network that serves the schema.
\<close>

theorem get_schema_decision_policy_witness:
  "get_schema (example_lib net_ok) STATIC_CONFS_SCHEMA_URL False (cached_world 999000 object_schema_text) =
     (Inr object_schema, cached_world 999000 object_schema_text)
   \<and> get_schema (example_lib net_ok) STATIC_CONFS_SCHEMA_URL True (cached_world 1000 object_schema_text) =
     (Inr object_schema, cached_world 1000 object_schema_text)
   \<and> get_schema (example_lib net_ok) STATIC_CONFS_SCHEMA_URL True empty_world =
     (Inl (ValueError (''No cached schema available for https://json.schemastore.org/traefik-v3.json'' @
             '' and offline mode is enabled. Run without --offline first to download schemas.'')),
      empty_world)
   \<and> get_schema (example_lib net_ok) STATIC_CONFS_SCHEMA_URL False (cached_world 1000 ''{}'') =
     (Inr object_schema,
      (cached_world 1000 ''{}'')\<lparr>requests := [STATIC_CONFS_SCHEMA_URL],
        fs := (fs (cached_world 1000 ''{}''))(static_cache_path \<mapsto>
                File \<lparr>mtime = 1000000, content = object_schema_text\<rparr>)\<rparr>)"
proof (intro conjI)
  let ?L = "example_lib net_ok" and ?u = STATIC_CONFS_SCHEMA_URL
  show "get_schema ?L ?u False (cached_world 999000 object_schema_text) =
     (Inr object_schema, cached_world 999000 object_schema_text)"
    using get_schema_decision_policy [of "cached_world 999000 object_schema_text" ?L ?u False]
    by simp
  show "get_schema ?L ?u True (cached_world 1000 object_schema_text) =
     (Inr object_schema, cached_world 1000 object_schema_text)"
    using get_schema_decision_policy [of "cached_world 1000 object_schema_text" ?L ?u True]
    by simp
  show "get_schema ?L ?u True empty_world =
     (Inl (ValueError (''No cached schema available for https://json.schemastore.org/traefik-v3.json'' @
             '' and offline mode is enabled. Run without --offline first to download schemas.'')),
      empty_world)"
    using get_schema_decision_policy [of empty_world ?L ?u True]
    by (simp add: STATIC_CONFS_SCHEMA_URL_def)
  show "get_schema ?L ?u False (cached_world 1000 ''{}'') =
     (Inr object_schema,
      (cached_world 1000 ''{}'')\<lparr>requests := [STATIC_CONFS_SCHEMA_URL],
        fs := (fs (cached_world 1000 ''{}''))(static_cache_path \<mapsto>
                File \<lparr>mtime = 1000000, content = object_schema_text\<rparr>)\<rparr>)"
    using get_schema_decision_policy [of "cached_world 1000 ''{}''" ?L ?u False]
    by (simp add: net_ok_def)
qed

subsection \<open>Freshness\<close>

text \<open>
  Against claim C2 as stated. At a location whose file name is longer than the operating
  system allows, \<^verbatim>\<open>stat\<close> fails with errno 36, \<^verbatim>\<open>Path.exists()\<close> raises that
  error again, and so does \<open>is_cache_valid\<close>; the same holds at a cache location inside a
  directory that may not be searched (errno 13).
\<close>

theorem is_cache_valid_raises_on_refused_path:
  "is_cache_valid long_name_world long_name_path = Inl (OSError 36 ''File name too long'')
   \<and> is_cache_valid denied_world static_cache_path = Inl (OSError 13 ''Permission denied'')"
  by (simp add: is_cache_valid_def path_exists_def os_stat_def exists_on_error_def
      long_name_world_def denied_world_def)

text \<open>
  Claim C2, amended. \<open>is_cache_valid\<close> returns False when nothing is at the location, and
  for a file there it returns True exactly when the current time minus the modification
  time of the file is below 86400 seconds. When the operating system refuses the location
  with an error, the outcome is that of \<^verbatim>\<open>Path.exists()\<close>: an \<^verbatim>\<open>OSError\<close> whose errno
  is not 2, 20, 9 or 40 is raised, as is any exception that is neither an \<^verbatim>\<open>OSError\<close>
  nor a \<^verbatim>\<open>ValueError\<close>; for the four errnos and for a \<^verbatim>\<open>ValueError\<close> the result is
  False.
\<close>

theorem is_cache_valid_outcome:
  "is_cache_valid w location =
     (case fs w location of
        None \<Rightarrow> Inr False
      | Some (File f) \<Rightarrow> Inr (now w - mtime f < 86400)
      | Some (Refused e) \<Rightarrow>
          (if isinstance_OSError e then (if ignore_error e then Inr False else Inl e)
           else if isinstance_ValueError e then Inr False
           else Inl e))"
  by (simp add: is_cache_valid_eq exists_on_error_def split: option.splits node.splits)

text \<open>
  Nothing at the location, a file one hour old, a file of exactly 86400 seconds, a name
  that is too long, and a location below something that is not a directory.
\<close>

theorem is_cache_valid_outcome_witness:
  "is_cache_valid empty_world static_cache_path = Inr False
   \<and> is_cache_valid (cached_world 996400 ''{}'') static_cache_path = Inr True
   \<and> is_cache_valid (cached_world 913600 ''{}'') static_cache_path = Inr False
   \<and> is_cache_valid long_name_world long_name_path = Inl (OSError 36 ''File name too long'')
   \<and> is_cache_valid not_a_directory_world static_cache_path = Inr False"
proof (intro conjI)
  show "is_cache_valid empty_world static_cache_path = Inr False"
    using is_cache_valid_outcome [of empty_world static_cache_path] by simp
  show "is_cache_valid (cached_world 996400 ''{}'') static_cache_path = Inr True"
    using is_cache_valid_outcome [of "cached_world 996400 ''{}''" static_cache_path] by simp
  show "is_cache_valid (cached_world 913600 ''{}'') static_cache_path = Inr False"
    using is_cache_valid_outcome [of "cached_world 913600 ''{}''" static_cache_path] by simp
  show "is_cache_valid long_name_world long_name_path = Inl (OSError 36 ''File name too long'')"
    using is_cache_valid_outcome [of long_name_world long_name_path]
    by (simp add: long_name_world_def)
  show "is_cache_valid not_a_directory_world static_cache_path = Inr False"
    using is_cache_valid_outcome [of not_a_directory_world static_cache_path]
    by (simp add: not_a_directory_world_def)
qed

subsection \<open>Failure of the download\<close>

text \<open>
  Claim C5. Online, with the cache file missing or stale, when \<open>download_from_url\<close>
  raises \<open>e\<close>, \<open>get_schema\<close> raises the same \<open>e\<close>: the stale document is not returned,
  the files are as before, and exactly one request has been added to the log.
\<close>

theorem get_schema_fetch_failure:
  assumes "\<not> off"
    and "fs w (get_cache_path L url) = None \<or>
         (\<exists>f. fs w (get_cache_path L url) = Some (File f) \<and> \<not> now w - mtime f < 86400)"
    and "download_from_url L url w = (Inl e, w')"
  shows "get_schema L url off w = (Inl e, w') \<and> fs w' = fs w \<and> requests w' = requests w @ [url]"
proof -
  from assms(3) have w': "w' = w\<lparr>requests := requests w @ [url]\<rparr>"
    using download_world [of L url w] by simp
  from assms have "get_schema L url off w = (Inl e, w\<lparr>requests := requests w @ [url]\<rparr>)"
    by (auto simp: get_schema_absent get_schema_file)
  then show ?thesis
    by (simp add: w')
qed

text \<open>The download at an unreachable host.\<close>

lemma example_download_unreachable:
  "download_from_url (example_lib net_unreachable) STATIC_CONFS_SCHEMA_URL w =
     (Inl (ValueError (''Failed to download schema from https://json.schemastore.org/traefik-v3.json: '' @
                       ''<urlopen error [Errno -2] Name or service not known>'')),
      w\<lparr>requests := requests w @ [STATIC_CONFS_SCHEMA_URL]\<rparr>)"
  by (simp add: download_from_url_def net_unreachable_def STATIC_CONFS_SCHEMA_URL_def)

text \<open>A stale but well-formed cache file and an unreachable host: the error leaves, the file stays.\<close>

theorem get_schema_fetch_failure_witness:
  "get_schema (example_lib net_unreachable) STATIC_CONFS_SCHEMA_URL False
       (cached_world 1000 object_schema_text) =
     (Inl (ValueError (''Failed to download schema from https://json.schemastore.org/traefik-v3.json: '' @
                       ''<urlopen error [Errno -2] Name or service not known>'')),
      (cached_world 1000 object_schema_text)\<lparr>requests := [STATIC_CONFS_SCHEMA_URL]\<rparr>)"
  using get_schema_fetch_failure [of False "cached_world 1000 object_schema_text"
      "example_lib net_unreachable" STATIC_CONFS_SCHEMA_URL, OF _ _ example_download_unreachable]
  by simp

subsection \<open>Freshness after a write\<close>

text \<open>
  Claim C8. When \<open>get_schema\<close>, online and with no fresh file, returns a document \<open>x\<close>,
  it has written \<open>x\<close> to the location of the URL, stamped with the current time. Right
  after the call the location is fresh. In every later world in which the file at the
  location is still the one written and at least 86400 seconds have passed, the location
  is not fresh; with the clock advanced by \<open>t\<close> and nothing else changed, it is fresh
  exactly when \<open>t < 86400\<close>.
\<close>

theorem fresh_after_write_until_ttl:
  assumes "\<not> off"
    and "fs w (get_cache_path L url) = None \<or>
         (\<exists>f. fs w (get_cache_path L url) = Some (File f) \<and> \<not> now w - mtime f < 86400)"
    and "get_schema L url off w = (Inr x, w1)"
  shows "fs w1 (get_cache_path L url) = Some (File \<lparr>mtime = now w, content = json_dumps L x\<rparr>)
       \<and> is_cache_valid w1 (get_cache_path L url) = Inr True
       \<and> (\<forall>w2. fs w2 (get_cache_path L url) = fs w1 (get_cache_path L url) \<and>
                now w1 + 86400 \<le> now w2 \<longrightarrow>
                is_cache_valid w2 (get_cache_path L url) = Inr False)
       \<and> (\<forall>t. is_cache_valid (advance t w1) (get_cache_path L url) = Inr (t < 86400))"
proof -
  from assms have w1: "w1 = w\<lparr>requests := requests w @ [url],
                   fs := (fs w)(get_cache_path L url \<mapsto>
                           File \<lparr>mtime = now w, content = json_dumps L x\<rparr>)\<rparr>"
    by (auto simp: get_schema_absent get_schema_file split: sum.splits)
  show ?thesis
    by (simp add: w1 is_cache_valid_eq advance_def)
qed

text \<open>A download into an empty cache: fresh at once and after 86399 seconds, stale after 86400.\<close>

theorem fresh_after_write_until_ttl_witness:
  "is_cache_valid
     (snd (get_schema (example_lib net_ok) STATIC_CONFS_SCHEMA_URL False empty_world))
     static_cache_path = Inr True
   \<and> is_cache_valid
     (advance 86400 (snd (get_schema (example_lib net_ok) STATIC_CONFS_SCHEMA_URL False empty_world)))
     static_cache_path = Inr False
   \<and> is_cache_valid
     (advance 86399 (snd (get_schema (example_lib net_ok) STATIC_CONFS_SCHEMA_URL False empty_world)))
     static_cache_path = Inr True"
proof -
  obtain w1 where g: "get_schema (example_lib net_ok) STATIC_CONFS_SCHEMA_URL False empty_world =
      (Inr object_schema, w1)"
    by (simp add: get_schema_absent download_from_url_def net_ok_def)
  have "\<not> False" by simp
  moreover have "fs empty_world (get_cache_path (example_lib net_ok) STATIC_CONFS_SCHEMA_URL) = None \<or>
      (\<exists>f. fs empty_world (get_cache_path (example_lib net_ok) STATIC_CONFS_SCHEMA_URL) = Some (File f) \<and>
           \<not> now empty_world - mtime f < 86400)"
    by simp
  ultimately show ?thesis
    using fresh_after_write_until_ttl [OF _ _ g] by (simp add: g)
qed

subsection \<open>Errors of the download\<close>

text \<open>
  Against claim C4 as stated. A response that is not JSON leaves \<open>download_from_url\<close> as
  the decoder's \<open>JSONDecodeError\<close>, which is not the \<open>ValueError\<close> the function builds
  for a failed download; a connection reset while the body is read leaves it as the
  transport's own exception, which is no \<open>ValueError\<close> of any kind.
\<close>

theorem download_malformed_payload_not_wrapped:
  "fst (download_from_url (example_lib net_html) STATIC_CONFS_SCHEMA_URL empty_world) =
     Inl JSONDecodeError
   \<and> \<not> is_plain_ValueError JSONDecodeError
   \<and> fst (download_from_url (example_lib net_reset) STATIC_CONFS_SCHEMA_URL empty_world) =
     Inl (OtherException ''ConnectionResetError'' ''[Errno 104] Connection reset by peer'')
   \<and> \<not> isinstance_ValueError
         (OtherException ''ConnectionResetError'' ''[Errno 104] Connection reset by peer'')"
  by (simp add: download_from_url_def net_html_def net_reset_def)

text \<open>
  Claim C4, amended. \<open>download_from_url\<close> turns an instance of \<open>URLError\<close> (an
  unreachable host, or a non-success status as its subclass \<open>HTTPError\<close>) into a
  \<open>ValueError\<close> whose message starts "Failed to download schema from", names the URL and
  ends with the text of the caught exception. Any other exception of the transport
  leaves the function unchanged. A body that is not UTF-8 surfaces as
  \<open>UnicodeDecodeError\<close>, a body that is not JSON as \<open>JSONDecodeError\<close>.
\<close>

theorem download_from_url_errors:
  "(\<forall>e. urlopen_read L url = Inl e \<and> isinstance_URLError e \<longrightarrow>
        fst (download_from_url L url w) =
          Inl (ValueError (''Failed to download schema from '' @ url @ '': '' @ str_exn e)))
   \<and> (\<forall>e. urlopen_read L url = Inl e \<and> \<not> isinstance_URLError e \<longrightarrow>
        fst (download_from_url L url w) = Inl e)
   \<and> (\<forall>body. urlopen_read L url = Inr body \<and> decode_utf8 L body = None \<longrightarrow>
        fst (download_from_url L url w) = Inl UnicodeDecodeError)
   \<and> (\<forall>body txt. urlopen_read L url = Inr body \<and> decode_utf8 L body = Some txt \<and>
        json_loads L txt = None \<longrightarrow>
        fst (download_from_url L url w) = Inl JSONDecodeError)"
  by (simp add: download_from_url_def)

text \<open>One network for each of the four cases, and the status 404 for the subclass.\<close>

theorem download_from_url_errors_witness:
  "fst (download_from_url (example_lib net_unreachable) STATIC_CONFS_SCHEMA_URL empty_world) =
     Inl (ValueError (''Failed to download schema from https://json.schemastore.org/traefik-v3.json: '' @
                      ''<urlopen error [Errno -2] Name or service not known>''))
   \<and> fst (download_from_url (example_lib net_404) STATIC_CONFS_SCHEMA_URL empty_world) =
     Inl (ValueError (''Failed to download schema from https://json.schemastore.org/traefik-v3.json: '' @
                      ''HTTP Error 404: Not Found''))
   \<and> fst (download_from_url (example_lib net_reset) DYNAMIC_CONFS_SCHEMA_URL empty_world) =
     Inl (OtherException ''ConnectionResetError'' ''[Errno 104] Connection reset by peer'')
   \<and> fst (download_from_url (example_lib net_html) DYNAMIC_CONFS_SCHEMA_URL empty_world) =
     Inl JSONDecodeError
   \<and> fst (download_from_url ((example_lib net_ok)\<lparr>decode_utf8 := \<lambda>b. None\<rparr>)
            DYNAMIC_CONFS_SCHEMA_URL empty_world) =
     Inl UnicodeDecodeError"
proof (intro conjI)
  have str404: "str_nat 404 = ''404''"
    by code_simp
  show "fst (download_from_url (example_lib net_unreachable) STATIC_CONFS_SCHEMA_URL empty_world) =
     Inl (ValueError (''Failed to download schema from https://json.schemastore.org/traefik-v3.json: '' @
                      ''<urlopen error [Errno -2] Name or service not known>''))"
    using download_from_url_errors [of "example_lib net_unreachable" STATIC_CONFS_SCHEMA_URL empty_world]
    by (simp add: net_unreachable_def STATIC_CONFS_SCHEMA_URL_def)
  show "fst (download_from_url (example_lib net_404) STATIC_CONFS_SCHEMA_URL empty_world) =
     Inl (ValueError (''Failed to download schema from https://json.schemastore.org/traefik-v3.json: '' @
                      ''HTTP Error 404: Not Found''))"
    using download_from_url_errors [of "example_lib net_404" STATIC_CONFS_SCHEMA_URL empty_world]
    by (simp add: net_404_def STATIC_CONFS_SCHEMA_URL_def str404)
  show "fst (download_from_url (example_lib net_reset) DYNAMIC_CONFS_SCHEMA_URL empty_world) =
     Inl (OtherException ''ConnectionResetError'' ''[Errno 104] Connection reset by peer'')"
    using download_from_url_errors [of "example_lib net_reset" DYNAMIC_CONFS_SCHEMA_URL empty_world]
    by (simp add: net_reset_def)
  show "fst (download_from_url (example_lib net_html) DYNAMIC_CONFS_SCHEMA_URL empty_world) =
     Inl JSONDecodeError"
    using download_from_url_errors [of "example_lib net_html" DYNAMIC_CONFS_SCHEMA_URL empty_world]
    by (simp add: net_html_def)
  show "fst (download_from_url ((example_lib net_ok)\<lparr>decode_utf8 := \<lambda>b. None\<rparr>)
            DYNAMIC_CONFS_SCHEMA_URL empty_world) =
     Inl UnicodeDecodeError"
    using download_from_url_errors [of "(example_lib net_ok)\<lparr>decode_utf8 := \<lambda>b. None\<rparr>"
        DYNAMIC_CONFS_SCHEMA_URL empty_world]
    by (simp add: net_ok_def)
qed

subsection \<open>A cache file that does not decode\<close>

text \<open>
  Against claim C6 as stated. Online, with a network that serves the schema, a fresh cache
  file whose text is not JSON makes \<open>get_schema\<close> fail with the decoding error; nothing is
  requested. With the entry absent the same call downloads and returns the schema.
\<close>

theorem undecodable_fresh_cache_not_refetched:
  "get_schema (example_lib net_ok) STATIC_CONFS_SCHEMA_URL False
       (cached_world 999000 ''<html></html>'') =
     (Inl JSONDecodeError, cached_world 999000 ''<html></html>'')
   \<and> requests (cached_world 999000 ''<html></html>'') = []
   \<and> fst (get_schema (example_lib net_ok) STATIC_CONFS_SCHEMA_URL False empty_world) =
     Inr object_schema"
  by (simp add: get_schema_file get_schema_absent json_load_def download_from_url_def net_ok_def)

text \<open>
  Claim C6, amended. Let the cache file of the URL exist with a text that does not decode.
  If it is fresh, \<open>get_schema\<close> fails with \<open>JSONDecodeError\<close> and changes nothing, online
  or offline. If it is stale and the call is offline, the same. If it is stale and the
  call is online, the file is never read: one request is made, the result is the one the
  call gives with the entry absent, and after a successful download so is the world.
\<close>

theorem undecodable_cache_entry:
  assumes "fs w (get_cache_path L url) = Some (File f)" and "json_loads L (content f) = None"
  shows "(now w - mtime f < 86400 \<longrightarrow> get_schema L url off w = (Inl JSONDecodeError, w))
       \<and> (\<not> now w - mtime f < 86400 \<and> off \<longrightarrow> get_schema L url off w = (Inl JSONDecodeError, w))
       \<and> (\<not> now w - mtime f < 86400 \<and> \<not> off \<longrightarrow>
            fst (get_schema L url off w) =
              fst (get_schema L url off (w\<lparr>fs := (fs w)(get_cache_path L url := None)\<rparr>)) \<and>
            requests (snd (get_schema L url off w)) = requests w @ [url] \<and>
            (\<forall>schema. fst (get_schema L url off w) = Inr schema \<longrightarrow>
               snd (get_schema L url off w) =
                 snd (get_schema L url off (w\<lparr>fs := (fs w)(get_cache_path L url := None)\<rparr>))))"
proof -
  let ?w0 = "w\<lparr>fs := (fs w)(get_cache_path L url := None)\<rparr>"
  have absent: "fs ?w0 (get_cache_path L url) = None"
    by simp
  have same_download: "fst (download_from_url L url ?w0) = fst (download_from_url L url w)"
    by (simp add: download_from_url_def Let_def split: sum.splits option.splits)
  show ?thesis
    using assms
    by (auto simp: get_schema_file [OF assms(1)] get_schema_absent [OF absent] same_download
        json_load_def split: sum.splits)
qed

text \<open>A fresh and a stale file that hold a web page instead of JSON.\<close>

theorem undecodable_cache_entry_witness:
  "get_schema (example_lib net_ok) STATIC_CONFS_SCHEMA_URL False
       (cached_world 999000 ''<html></html>'') =
     (Inl JSONDecodeError, cached_world 999000 ''<html></html>'')
   \<and> get_schema (example_lib net_ok) STATIC_CONFS_SCHEMA_URL True
       (cached_world 1000 ''<html></html>'') =
     (Inl JSONDecodeError, cached_world 1000 ''<html></html>'')
   \<and> requests (snd (get_schema (example_lib net_ok) STATIC_CONFS_SCHEMA_URL False
       (cached_world 1000 ''<html></html>''))) = [STATIC_CONFS_SCHEMA_URL]"
proof -
  let ?L = "example_lib net_ok"
  let ?u = STATIC_CONFS_SCHEMA_URL
  let ?f = "\<lambda>m. \<lparr>mtime = m, content = ''<html></html>''\<rparr>"
  have fresh: "fs (cached_world 999000 ''<html></html>'') (get_cache_path ?L ?u) = Some (File (?f 999000))"
    by simp
  have stale: "fs (cached_world 1000 ''<html></html>'') (get_cache_path ?L ?u) = Some (File (?f 1000))"
    by simp
  have bad: "json_loads ?L (content (?f m)) = None" for m
    by simp
  from undecodable_cache_entry [OF fresh bad, of False]
  have "get_schema ?L ?u False (cached_world 999000 ''<html></html>'') =
      (Inl JSONDecodeError, cached_world 999000 ''<html></html>'')"
    by simp
  moreover from undecodable_cache_entry [OF stale bad, of True]
  have "get_schema ?L ?u True (cached_world 1000 ''<html></html>'') =
      (Inl JSONDecodeError, cached_world 1000 ''<html></html>'')"
    by simp
  moreover from undecodable_cache_entry [OF stale bad, of False]
  have "requests (snd (get_schema ?L ?u False (cached_world 1000 ''<html></html>''))) = [?u]"
    by simp
  ultimately show ?thesis by simp
qed

subsection \<open>Frame of \<open>get_schema\<close>\<close>

text \<open>
  Against claim C10 as stated. The two identifiers \<open>colliding_id_A\<close> and \<open>colliding_id_E\<close>
  are different strings with one MD5 digest, so they have one cache location. With a
  stale entry at that location, a call of \<open>get_schema\<close> for the first identifier, online
  and with a fetcher that answers it, replaces the entry found at the location of the
  second: the entry of another identifier is changed by the call.
\<close>

theorem colliding_identifier_entry_overwritten:
  "colliding_id_A \<noteq> colliding_id_E
   \<and> fs colliding_world (get_cache_path (example_lib net_ok) colliding_id_E) =
       Some (File \<lparr>mtime = 1000, content = ''{}''\<rparr>)
   \<and> fs (snd (get_schema (example_lib net_ok) colliding_id_A False colliding_world))
        (get_cache_path (example_lib net_ok) colliding_id_E) =
       Some (File \<lparr>mtime = 1000000, content = object_schema_text\<rparr>)"
proof -
  have here: "fs colliding_world (get_cache_path (example_lib net_ok) colliding_id_A) =
      Some (File \<lparr>mtime = 1000, content = ''{}''\<rparr>)"
    by (simp add: colliding_world_def)
  have "colliding_id_A \<noteq> colliding_id_E"
    by (simp add: colliding_id_A_def colliding_id_E_def)
  moreover have "fs colliding_world (get_cache_path (example_lib net_ok) colliding_id_E) =
       Some (File \<lparr>mtime = 1000, content = ''{}''\<rparr>)"
    by (simp add: colliding_world_def)
  moreover have "fs (snd (get_schema (example_lib net_ok) colliding_id_A False colliding_world))
        (get_cache_path (example_lib net_ok) colliding_id_E) =
       Some (File \<lparr>mtime = 1000000, content = object_schema_text\<rparr>)"
    unfolding get_schema_file [OF here]
    by (simp add: download_from_url_def net_ok_def colliding_world_def)
  ultimately show ?thesis by simp
qed

text \<open>
  Claim C10, amended. A call of \<open>get_schema\<close> for a URL leaves every path other than the
  cache location of that URL as it was, so the entry of another identifier is unchanged
  whenever its location differs (identifiers with one digest share one entry). If the
  files differ at all after the call, then the call was online, the entry was not fresh,
  the download returned a document, and the only change is that document written at the
  location. Offline, or with a fresh entry, the files are unchanged. No path that held a
  file before the call is without one after it.
\<close>

theorem get_schema_frame:
  assumes "get_schema L url off w = (r, w')"
  shows "(\<forall>p. p \<noteq> get_cache_path L url \<longrightarrow> fs w' p = fs w p)
       \<and> (\<forall>other. get_cache_path L other \<noteq> get_cache_path L url \<longrightarrow>
             fs w' (get_cache_path L other) = fs w (get_cache_path L other))
       \<and> (fs w' \<noteq> fs w \<longrightarrow>
             \<not> off \<and> is_cache_valid w (get_cache_path L url) = Inr False \<and>
             (\<exists>schema. fst (download_from_url L url w) = Inr schema \<and> r = Inr schema \<and>
                fs w' = (fs w)(get_cache_path L url \<mapsto>
                          File \<lparr>mtime = now w, content = json_dumps L schema\<rparr>)))
       \<and> (off \<or> is_cache_valid w (get_cache_path L url) = Inr True \<longrightarrow> fs w' = fs w)
       \<and> dom (fs w) \<subseteq> dom (fs w')"
proof -
  let ?p = "get_cache_path L url"
  have unchanged_or_written:
    "fs w' = fs w \<or>
     (\<not> off \<and> is_cache_valid w ?p = Inr False \<and>
      (\<exists>schema. fst (download_from_url L url w) = Inr schema \<and> r = Inr schema \<and>
         fs w' = (fs w)(?p \<mapsto> File \<lparr>mtime = now w, content = json_dumps L schema\<rparr>)))"
  proof (cases "fs w ?p")
    case None
    with assms show ?thesis
      by (cases "fst (download_from_url L url w)")
         (auto simp: get_schema_absent is_cache_valid_eq split: if_splits)
  next
    case (Some n)
    show ?thesis
    proof (cases n)
      case (File f)
      with Some have "fs w ?p = Some (File f)" by simp
      with assms show ?thesis
        by (cases "fst (download_from_url L url w)")
           (auto simp: get_schema_file is_cache_valid_eq split: if_splits)
    next
      case (Refused e)
      with Some have "fs w ?p = Some (Refused e)" by simp
      from get_schema_refused(1) [OF this, of off] assms show ?thesis
        by simp
    qed
  qed
  have kept: "fs w' = fs w" if "off \<or> is_cache_valid w ?p = Inr True"
    using unchanged_or_written that by auto
  from unchanged_or_written kept show ?thesis
    by auto
qed

text \<open>
  Both entries stale: a call for the static URL leaves the dynamic entry alone when it
  downloads, changes no file at all when offline, and removes none.
\<close>

theorem get_schema_frame_witness:
  "fs (snd (get_schema (example_lib net_ok) STATIC_CONFS_SCHEMA_URL False
              (both_cached_world 1000 object_schema_text))) dynamic_cache_path =
     Some (File \<lparr>mtime = 1000, content = object_schema_text\<rparr>)
   \<and> fs (snd (get_schema (example_lib net_ok) STATIC_CONFS_SCHEMA_URL True
              (both_cached_world 1000 object_schema_text))) =
     fs (both_cached_world 1000 object_schema_text)
   \<and> dom (fs (both_cached_world 1000 object_schema_text)) \<subseteq>
       dom (fs (snd (get_schema (example_lib net_ok) STATIC_CONFS_SCHEMA_URL False
              (both_cached_world 1000 object_schema_text))))"
proof -
  let ?w = "both_cached_world 1000 object_schema_text"
  let ?L = "example_lib net_ok"
  let ?u = STATIC_CONFS_SCHEMA_URL
  note online = get_schema_frame [of ?L ?u False ?w, OF prod.collapse [symmetric]]
  note offline = get_schema_frame [of ?L ?u True ?w, OF prod.collapse [symmetric]]
  from online have "fs (snd (get_schema ?L ?u False ?w)) dynamic_cache_path = fs ?w dynamic_cache_path"
    by simp
  moreover from offline have "fs (snd (get_schema ?L ?u True ?w)) = fs ?w"
    by simp
  moreover from online have "dom (fs ?w) \<subseteq> dom (fs (snd (get_schema ?L ?u False ?w)))"
    by simp
  ultimately show ?thesis by simp
qed

subsection \<open>Errors in \<open>validate\<close>\<close>








text \<open>The example validator: fields, and the two roles against the schema that asks for a mapping.\<close>

lemma example_validator_fields [simp]:
  "static_conf_file (example_validator off) = Some ''- 1''"
  "dynamic_conf_file (example_validator off) = Some ''a: 1''"
  "offline (example_validator off) = off"
  "static_schema_url (example_validator off) = STATIC_CONFS_SCHEMA_URL"
  "dynamic_schema_url (example_validator off) = DYNAMIC_CONFS_SCHEMA_URL"
  by (simp_all add: example_validator_def)

lemma example_match [simp]:
  "load_and_match (example_lib net) ''- 1'' (Inr object_schema, w) =
     (Inl (JsonschemaValidationError []
             (''[1] is not of type '' @ [CHR 0x27] @ ''object'' @ [CHR 0x27])), w)"
  "load_and_match (example_lib net) ''a: 1'' (Inr object_schema, w) = (Inr (), w)"
  by (simp_all add: load_and_match_def example_yaml_safe_load_def example_jsonschema_validate_def)



subsection \<open>Collection of structural errors\<close>



subsection \<open>The cache location\<close>

text \<open>
  \<open>get_cache_path\<close> takes the libraries and the identifier and no world: it reads no file
  and no clock. Its value is the cache directory followed by one part, the digest with
  \<^verbatim>\<open>.json\<close>; two identifiers have one location exactly when they have one digest. How
  likely that is for two different identifiers is a property of MD5 and of how identifiers
  are chosen, which this development does not state; the two colliding identifiers of
  the frame property show that it does happen.
\<close>

lemma get_cache_path_shape:
  "butlast (get_cache_path L url) = CACHE_DIR L"
  "last (get_cache_path L url) = md5_hexdigest L url @ ''.json''"
  "prefix (CACHE_DIR L) (get_cache_path L url)"
  "suffix ''.json'' (last (get_cache_path L url))"
  by (simp_all add: get_cache_path_def suffix_def)

lemma get_cache_path_eq_iff:
  "get_cache_path L a = get_cache_path L b \<longleftrightarrow> md5_hexdigest L a = md5_hexdigest L b"
  by (simp add: get_cache_path_def)

lemma CACHE_DIR_example:
  "CACHE_DIR (example_lib net) = [''/'', ''home'', ''user'', ''.traefik-validator'', ''cache'']"
  by (simp add: CACHE_DIR_def example_lib_def)

end
